theory Spec2Isabelle
  imports Main "HOL-Library.Word"
begin

section \<open>Python values handled by the loader\<close>

text \<open>
  The values that \<open>json.load\<close> hands to the loader: \<open>None\<close>, booleans, integers,
  floats, strings, lists and dictionaries with string keys. A dictionary is an association
  list, because \<open>get_content\<close> depends on the iteration order of \<open>item.items()\<close>.
  A float is the 64 bits of its IEEE 754 representation; the loader never computes
  with one.
\<close>

type_synonym pyfloat = "64 word"

datatype pyval =
    PNone
  | PBool bool
  | PInt int
  | PFloat pyfloat
  | PStr string
  | PList "pyval list"
  | PDict "(string \<times> pyval) list"

datatype os_error = FileNotFoundError | PermissionError | IsADirectoryError

text \<open>
  The exceptions that can travel through \<open>__init__\<close> and \<open>load\<close>. \<open>Raised name\<close>
  stands for any other exception class, for instance one raised by a caller-supplied
  \<open>metadata_func\<close>.
\<close>

datatype exn =
    OSError os_error
  | JSONDecodeError
  | UnicodeDecodeError
  | AttributeError
  | TypeError
  | ValueError
  | RuntimeError
  | ValidationError
  | Raised string

text \<open>
  \<open>Document\<close> comes from \<open>langchain_core\<close>; the loader only calls its constructor with
  the two keyword arguments \<open>page_content\<close> and \<open>metadata\<close>. The class declares
  \<open>page_content: str\<close> and \<open>metadata: dict\<close> and validates both: the constructor
  raises \<open>ValidationError\<close> unless the content is a string and the metadata a
  dictionary.
\<close>

record Document =
  page_content :: pyval
  metadata :: pyval

fun new_Document :: "pyval \<Rightarrow> pyval \<Rightarrow> exn + Document" where
  "new_Document (PStr s) (PDict kvs) = Inr \<lparr>page_content = PStr s, metadata = PDict kvs\<rparr>"
| "new_Document content md = Inl ValidationError"

text \<open>The attributes that \<open>__init__\<close> stores (lines 24-26).\<close>

record JSONLoader =
  file_path :: string
  content_key :: "string option"
  metadata_func :: "(pyval \<Rightarrow> exn + pyval) option"

text \<open>
  The part of the outside world that the loader touches: what \<open>open\<close> finds at a path,
  the lines printed so far on standard output, the current directory, and the symbolic
  links of the file system (the absolute path of each link with its target), which
  \<open>Path.resolve\<close> reads.
\<close>

datatype file_entry = Absent | Denied | Directory | Regular string

record world =
  fs :: "string \<Rightarrow> file_entry"
  stdout :: "string list"
  cwd :: string
  links :: "(string \<times> string) list"

section \<open>Built-in operations used by the source\<close>

text \<open>\<open>str(n)\<close> for an integer: decimal digits, with a minus sign when negative.\<close>

definition digit_char :: "nat \<Rightarrow> char" where
  "digit_char d = ''0123456789'' ! d"

function nat_digits :: "nat \<Rightarrow> string" where
  "nat_digits n =
     (if n < 10 then [digit_char n] else nat_digits (n div 10) @ [digit_char (n mod 10)])"
  by pat_completeness auto
termination
  by (relation "measure id") auto

declare nat_digits.simps [simp del]

definition int_str :: "int \<Rightarrow> string" where
  "int_str i = (if i < 0 then CHR ''-'' # nat_digits (nat (- i)) else nat_digits (nat i))"

text \<open>
  The text that the f-string \<open>f"{key}: {value}"\<close> substitutes for \<open>value\<close>, which is
  \<open>str(value)\<close>. For floats, lists and dictionaries \<open>str\<close> is \<open>repr\<close>, which belongs
  to the interpreter; it is the parameter \<open>repr\<close>.
\<close>

fun py_str :: "(pyval \<Rightarrow> string) \<Rightarrow> pyval \<Rightarrow> string" where
  "py_str repr (PStr s) = s"
| "py_str repr PNone = ''None''"
| "py_str repr (PBool b) = (if b then ''True'' else ''False'')"
| "py_str repr (PInt i) = int_str i"
| "py_str repr v = repr v"

text \<open>\<open>sep.join(parts)\<close>.\<close>

fun py_join :: "string \<Rightarrow> string list \<Rightarrow> string" where
  "py_join sep [] = []"
| "py_join sep [x] = x"
| "py_join sep (x # y # ys) = x @ sep @ py_join sep (y # ys)"

text \<open>
  \<open>item.get(key, default)\<close> and \<open>item.items()\<close>: only a dictionary has these methods,
  any other value raises \<open>AttributeError\<close>.
\<close>

fun dict_get :: "pyval \<Rightarrow> string \<Rightarrow> pyval \<Rightarrow> exn + pyval" where
  "dict_get (PDict kvs) key dflt = Inr (case map_of kvs key of None \<Rightarrow> dflt | Some v \<Rightarrow> v)"
| "dict_get item key dflt = Inl AttributeError"

fun dict_items :: "pyval \<Rightarrow> exn + (string \<times> pyval) list" where
  "dict_items (PDict kvs) = Inr kvs"
| "dict_items item = Inl AttributeError"

text \<open>
  The elements that \<open>for item in data\<close> visits: the elements of a list, the keys of a
  dictionary, the characters of a string; the other values are not iterable.
\<close>

fun py_iter :: "pyval \<Rightarrow> exn + pyval list" where
  "py_iter (PList xs) = Inr xs"
| "py_iter (PDict kvs) = Inr (map (\<lambda>kv. PStr (fst kv)) kvs)"
| "py_iter (PStr s) = Inr (map (\<lambda>c. PStr [c]) s)"
| "py_iter v = Inl TypeError"

text \<open>\<open>open(path, mode="r", encoding="utf-8")\<close>, giving the text of the file.\<close>

definition open_file :: "world \<Rightarrow> string \<Rightarrow> exn + string" where
  "open_file w path =
     (case fs w path of
        Absent \<Rightarrow> Inl (OSError FileNotFoundError)
      | Denied \<Rightarrow> Inl (OSError PermissionError)
      | Directory \<Rightarrow> Inl (OSError IsADirectoryError)
      | Regular text \<Rightarrow> Inr text)"

text \<open>\<open>print(line)\<close>.\<close>

definition print :: "string \<Rightarrow> world \<Rightarrow> world" where
  "print line w = w\<lparr>stdout := stdout w @ [line]\<rparr>"

section \<open>The loader (src/utils/JSONLoader.py)\<close>







text \<open>
  \<open>get_content\<close>, lines 56-59. The test \<open>if self._content_key:\<close> succeeds exactly for a
  non-empty string: \<open>None\<close> and \<open>""\<close> are both false.
\<close>

definition get_content :: "(pyval \<Rightarrow> string) \<Rightarrow> JSONLoader \<Rightarrow> pyval \<Rightarrow> exn + pyval" where
  "get_content repr self item =
     (case content_key self of
        Some (c # cs) \<Rightarrow> dict_get item (c # cs) (PStr [])
      | _ \<Rightarrow>
        (case dict_items item of
           Inl e \<Rightarrow> Inl e
         | Inr kvs \<Rightarrow>
             Inr (PStr (py_join [CHR 0x0A]
                    (map (\<lambda>(key, value). key @ '': '' @ py_str repr value) kvs)))))"

text \<open>
  \<open>create_documents\<close>, lines 38-44. The loop body computes the content first, then the
  metadata, then constructs the document and appends it; an exception in any of the
  three ends the loop.
\<close>

fun create_documents_loop :: "(pyval \<Rightarrow> string) \<Rightarrow> JSONLoader \<Rightarrow> pyval list \<Rightarrow>
    Document list \<Rightarrow> exn + Document list" where
  "create_documents_loop repr self [] documents = Inr documents"
| "create_documents_loop repr self (item # rest) documents =
     (case get_content repr self item of
        Inl e \<Rightarrow> Inl e
      | Inr content \<Rightarrow>
          (case (case metadata_func self of Some f \<Rightarrow> f item | None \<Rightarrow> Inr (PDict [])) of
             Inl e \<Rightarrow> Inl e
           | Inr md \<Rightarrow>
               (case new_Document content md of
                  Inl e \<Rightarrow> Inl e
                | Inr document \<Rightarrow>
                    create_documents_loop repr self rest (documents @ [document]))))"

definition create_documents :: "(pyval \<Rightarrow> string) \<Rightarrow> JSONLoader \<Rightarrow> pyval \<Rightarrow>
    exn + Document list" where
  "create_documents repr self data =
     (case py_iter data of
        Inl e \<Rightarrow> Inl e
      | Inr items \<Rightarrow> create_documents_loop repr self items [])"

text \<open>
  \<open>load\<close>, lines 68-75. \<open>json_load\<close> is \<open>json.load\<close> of the standard library applied to
  the text of the file, taken as a parameter. \<open>open\<close> is outside the \<open>try\<close>; the
  \<open>try\<close> holds both \<open>json.load\<close> and \<open>create_documents\<close>, and its handler catches
  \<open>JSONDecodeError\<close> only, prints, and leaves \<open>docs = []\<close>.
\<close>

definition load :: "(string \<Rightarrow> exn + pyval) \<Rightarrow> (pyval \<Rightarrow> string) \<Rightarrow> JSONLoader \<Rightarrow>
    world \<Rightarrow> (exn + Document list) \<times> world" where
  "load json_load repr self w =
     (case open_file w (file_path self) of
        Inl e \<Rightarrow> (Inl e, w)
      | Inr text \<Rightarrow>
          (case (case json_load text of
                   Inl e \<Rightarrow> Inl e
                 | Inr data \<Rightarrow> create_documents repr self data) of
             Inr docs \<Rightarrow> (Inr docs, w)
           | Inl JSONDecodeError \<Rightarrow> (Inr [], print ''Error: Invalid JSON format'' w)
           | Inl e \<Rightarrow> (Inl e, w)))"

section \<open>Specification-side definitions\<close>

text \<open>
  The content that the specification describes for a record without a content key: one
  line \<open>key: value\<close> per field, in the order of the fields, a newline between lines.
\<close>

fun field_lines :: "(pyval \<Rightarrow> string) \<Rightarrow> (string \<times> pyval) list \<Rightarrow> string" where
  "field_lines repr [] = []"
| "field_lines repr [(k, v)] = k @ '': '' @ py_str repr v"
| "field_lines repr ((k, v) # kv # rest) =
     k @ '': '' @ py_str repr v @ [CHR 0x0A] @ field_lines repr (kv # rest)"

text \<open>
  \<open>document_for repr self item doc\<close>: \<open>doc\<close> is the document of the record \<open>item\<close>, its
  content being what \<open>get_content\<close> returns for the record and its metadata being what
  \<open>metadata_func\<close> returns for it, or the empty dictionary when there is no function.
\<close>

definition document_for :: "(pyval \<Rightarrow> string) \<Rightarrow> JSONLoader \<Rightarrow> pyval \<Rightarrow> Document \<Rightarrow> bool" where
  "document_for repr self item doc =
     (get_content repr self item = Inr (page_content doc) \<and>
      (case metadata_func self of None \<Rightarrow> Inr (PDict []) | Some f \<Rightarrow> f item)
        = Inr (metadata doc))"

fun is_dict :: "pyval \<Rightarrow> bool" where
  "is_dict (PDict kvs) = True"
| "is_dict v = False"

fun is_str :: "pyval \<Rightarrow> bool" where
  "is_str (PStr s) = True"
| "is_str v = False"


section \<open>The scenarios of the specification\<close>

text \<open>
  The current directory is \<open>/data\<close>. It holds the file of the two records
  \<open>title\<close>/\<open>body\<close>, the file \<open>{invalid json\<close>, a file whose array holds a number, a
  file whose record has a \<open>null\<close> body, a symbolic link to the first file and a
  symbolic link to itself; there is no file anywhere else. \<open>scenario_json_load\<close> gives
  what \<open>json.load\<close> returns on these texts.
\<close>

definition records_text :: string where
  \<open>records_text = ''[{"title": "A", "body": "hello"}, {"title": "B", "body": "world"}]''\<close>

definition records_value :: pyval where
  "records_value =
     PList [PDict [(''title'', PStr ''A''), (''body'', PStr ''hello'')],
            PDict [(''title'', PStr ''B''), (''body'', PStr ''world'')]]"

definition null_body_text :: string where
  \<open>null_body_text = ''[{"body": null}]''\<close>

definition scenario_json_load :: "string \<Rightarrow> exn + pyval" where
  "scenario_json_load text =
     (if text = records_text then Inr records_value
      else if text = ''[1]'' then Inr (PList [PInt 1])
      else if text = null_body_text then Inr (PList [PDict [(''body'', PNone)]])
      else Inl JSONDecodeError)"

definition scenario_fs :: "string \<Rightarrow> file_entry" where
  "scenario_fs path =
     (if path = ''/data/records.json'' then Regular records_text
      else if path = ''/data/broken.json'' then Regular ''{invalid json''
      else if path = ''/data/numbers.json'' then Regular ''[1]''
      else if path = ''/data/null_body.json'' then Regular null_body_text
      else Absent)"

definition scenario_world :: world where
  "scenario_world =
     \<lparr>fs = scenario_fs, stdout = [], cwd = ''/data'',
      links = [(''/data/current.json'', ''records.json''), (''/data/loop.json'', ''loop.json'')]\<rparr>"

definition scenario_repr :: "pyval \<Rightarrow> string" where
  "scenario_repr v = ''<repr>''"

text \<open>Metadata functions: one that copies the title, two that raise.\<close>

definition title_metadata :: "pyval \<Rightarrow> exn + pyval" where
  "title_metadata item =
     (case dict_get item ''title'' PNone of
        Inl e \<Rightarrow> Inl e
      | Inr v \<Rightarrow> Inr (PDict [(''title'', v)]))"

definition raising_metadata :: "pyval \<Rightarrow> exn + pyval" where
  "raising_metadata item = Inl (Raised ''KeyError'')"

definition decoding_metadata :: "pyval \<Rightarrow> exn + pyval" where
  "decoding_metadata item = Inl JSONDecodeError"

text \<open>The loader that \<open>__init__\<close> builds in this world for a file name in \<open>/data\<close>.\<close>

definition scenario_loader :: "string \<Rightarrow> string option \<Rightarrow> (pyval \<Rightarrow> exn + pyval) option \<Rightarrow>
    JSONLoader" where
  "scenario_loader name ckey mfunc =
     \<lparr>file_path = ''/data/'' @ name, content_key = ckey, metadata_func = mfunc\<rparr>"

section \<open>Properties of the built-in operations\<close>

lemma py_join_field_lines:
  "py_join [CHR 0x0A] (map (\<lambda>(key, value). key @ '': '' @ py_str repr value) kvs)
     = field_lines repr kvs"
  by (induction repr kvs rule: field_lines.induct) simp_all


lemma map_of_absent: "k \<notin> fst ` set kvs \<Longrightarrow> map_of kvs k = None"
  by (simp add: map_of_eq_None_iff)

section \<open>get_content\<close>

lemma get_content_truthy_key:
  "content_key self = Some key \<Longrightarrow> key \<noteq> [] \<Longrightarrow>
   get_content repr self item = dict_get item key (PStr [])"
  by (cases key) (simp_all add: get_content_def)

lemma get_content_falsy_key:
  "content_key self = None \<or> content_key self = Some [] \<Longrightarrow>
   get_content repr self item =
     (case dict_items item of
        Inl e \<Rightarrow> Inl e
      | Inr kvs \<Rightarrow> Inr (PStr (field_lines repr kvs)))"
  by (auto simp: get_content_def py_join_field_lines [simplified] split: sum.splits)

lemma get_content_of_dict: "\<exists>content. get_content repr self (PDict kvs) = Inr content"
  by (simp add: get_content_def split: option.splits list.splits)

lemma get_content_not_dict: "\<not> is_dict item \<Longrightarrow> get_content repr self item = Inl AttributeError"
  by (cases item) (simp_all add: get_content_def split: option.splits list.splits)

section \<open>create_documents\<close>

lemma new_Document_returns:
  "new_Document content md = Inr doc \<Longrightarrow>
   page_content doc = content \<and> metadata doc = md \<and> is_str content \<and> is_dict md"
  by (cases "(content, md)" rule: new_Document.cases) auto


lemma new_Document_raises: "new_Document content md = Inl e \<Longrightarrow> e = ValidationError"
  by (cases "(content, md)" rule: new_Document.cases) auto


lemma loop_result:
  "create_documents_loop repr self items acc = Inr docs \<Longrightarrow>
   \<exists>new. docs = acc @ new \<and> list_all2 (document_for repr self) items new"
proof (induction items arbitrary: acc)
  case Nil
  then show ?case by simp
next
  case (Cons item rest)
  from Cons.prems obtain content md doc where
    c: "get_content repr self item = Inr content" and
    m: "(case metadata_func self of Some f \<Rightarrow> f item | None \<Rightarrow> Inr (PDict [])) = Inr md" and
    d: "new_Document content md = Inr doc" and
    r: "create_documents_loop repr self rest (acc @ [doc]) = Inr docs"
    by (auto split: sum.splits)
  from Cons.IH [OF r] obtain new where
    n: "docs = (acc @ [doc]) @ new"
      "list_all2 (document_for repr self) rest new" by blast
  have "document_for repr self item doc"
    using c m new_Document_returns [OF d] by (simp add: document_for_def)
  with n show ?case by simp
qed


lemma loop_raises:
  "create_documents_loop repr self items acc = Inl e \<Longrightarrow>
   e = ValidationError \<or>
   (\<exists>item\<in>set items. get_content repr self item = Inl e \<or>
      (\<exists>f. metadata_func self = Some f \<and> f item = Inl e))"
proof (induction items arbitrary: acc)
  case Nil
  then show ?case by simp
next
  case (Cons item rest)
  then show ?case
    by (fastforce split: sum.splits option.splits dest: new_Document_raises)
qed

lemma create_documents_result:
  "create_documents repr self data = Inr docs \<Longrightarrow>
   \<exists>items. py_iter data = Inr items \<and> list_all2 (document_for repr self) items docs"
  by (auto simp: create_documents_def split: sum.splits dest: loop_result)


section \<open>Path.resolve\<close>







section \<open>load\<close>

lemma load_opened:
  "fs w (file_path self) = Regular text \<Longrightarrow>
   load json_load repr self w =
     (case (case json_load text of
              Inl e \<Rightarrow> Inl e
            | Inr data \<Rightarrow> create_documents repr self data) of
        Inr docs \<Rightarrow> (Inr docs, w)
      | Inl JSONDecodeError \<Rightarrow> (Inr [], print ''Error: Invalid JSON format'' w)
      | Inl e \<Rightarrow> (Inl e, w))"
  by (simp add: load_def open_file_def)

lemma load_not_opened:
  "\<forall>text. fs w (file_path self) \<noteq> Regular text \<Longrightarrow>
   \<exists>e. load json_load repr self w = (Inl (OSError e), w)"
  by (cases "fs w (file_path self)") (simp_all add: load_def open_file_def)

lemma load_keeps_files: "fs (snd (load json_load repr self w)) = fs w"
  by (simp add: load_def print_def split: sum.splits exn.splits)

section \<open>The claims\<close>




text \<open>
  Claim C2. When the file opens and \<open>json.load\<close> raises \<open>JSONDecodeError\<close> on its text,
  \<open>load\<close> raises nothing: it returns the empty list and has printed the line
  \<open>Error: Invalid JSON format\<close>.
\<close>

theorem load_invalid_json_returns_empty:
  assumes "fs w (file_path self) = Regular text"
    and "json_load text = Inl JSONDecodeError"
  shows "load json_load repr self w
           = (Inr [], w\<lparr>stdout := stdout w @ [''Error: Invalid JSON format'']\<rparr>)"
  using assms by (simp add: load_opened print_def)

theorem load_invalid_json_returns_empty_witness:
  "fs scenario_world (file_path (scenario_loader ''broken.json'' None None))
     = Regular ''{invalid json'' \<and>
   scenario_json_load ''{invalid json'' = Inl JSONDecodeError \<and>
   load scenario_json_load scenario_repr (scenario_loader ''broken.json'' None None) scenario_world
     = (Inr [], scenario_world\<lparr>stdout := [''Error: Invalid JSON format'']\<rparr>)"
proof -
  let ?self = "scenario_loader ''broken.json'' None None"
  have f: "fs scenario_world (file_path ?self) = Regular ''{invalid json''"
    by (simp add: scenario_loader_def scenario_world_def
        scenario_fs_def)
  have j: "scenario_json_load ''{invalid json'' = Inl JSONDecodeError"
    by (simp add: scenario_json_load_def records_text_def null_body_text_def)
  have "stdout scenario_world = []" by (simp add: scenario_world_def)
  with load_invalid_json_returns_empty [where json_load = scenario_json_load and repr = scenario_repr, OF f j] f j show ?thesis by simp
qed

text \<open>
  Claim C3. When \<open>open\<close> finds no regular file at the path (it is absent, access is
  denied, or it is a directory), \<open>load\<close> raises an \<open>OSError\<close>, prints nothing and
  does not return the empty list.
\<close>

theorem load_unopened_file_raises:
  assumes "\<forall>text. fs w (file_path self) \<noteq> Regular text"
  shows "(\<exists>e. load json_load repr self w = (Inl (OSError e), w)) \<and>
         fst (load json_load repr self w) \<noteq> Inr []"
  using load_not_opened [OF assms, of json_load repr] by auto

theorem load_unopened_file_raises_witness:
  "fs scenario_world (file_path (scenario_loader ''nothing.json'' None None)) = Absent \<and>
   load scenario_json_load scenario_repr (scenario_loader ''nothing.json'' None None) scenario_world
     = (Inl (OSError FileNotFoundError), scenario_world)"
proof -
  let ?self = "scenario_loader ''nothing.json'' None None"
  have f: "fs scenario_world (file_path ?self) = Absent"
    by (simp add: scenario_loader_def scenario_world_def
        scenario_fs_def)
  then have "\<forall>text. fs scenario_world (file_path ?self) \<noteq> Regular text" by simp
  from load_unopened_file_raises [OF this, of scenario_json_load scenario_repr] obtain e where
    "load scenario_json_load scenario_repr ?self scenario_world = (Inl (OSError e), scenario_world)"
    by blast
  moreover from f have "load scenario_json_load scenario_repr ?self scenario_world
    = (Inl (OSError FileNotFoundError), scenario_world)"
    by (simp add: load_def open_file_def)
  ultimately show ?thesis using f by simp
qed

text \<open>
  Claim C4 as it is written fails for the content key \<open>""\<close>, which is set but false
  in the test of line 56: the record's \<open>""\<close> field is present and is not returned, and
  a record without that field does not give the empty string.
\<close>

theorem get_content_set_key_counterexample:
  "content_key (scenario_loader ''records.json'' (Some []) None) = Some [] \<and>
   map_of [([], PStr ''x''), (''a'', PStr ''y'')] [] = Some (PStr ''x'') \<and>
   get_content scenario_repr (scenario_loader ''records.json'' (Some []) None)
       (PDict [([], PStr ''x''), (''a'', PStr ''y'')])
     = Inr (PStr '': x\<newline>a: y'') \<and>
   get_content scenario_repr (scenario_loader ''records.json'' (Some []) None)
       (PDict [([], PStr ''x''), (''a'', PStr ''y'')])
     \<noteq> Inr (PStr ''x'') \<and>
   map_of [(''a'', PStr ''y'')] [] = None \<and>
   get_content scenario_repr (scenario_loader ''records.json'' (Some []) None)
       (PDict [(''a'', PStr ''y'')])
     = Inr (PStr ''a: y'') \<and>
   get_content scenario_repr (scenario_loader ''records.json'' (Some []) None)
       (PDict [(''a'', PStr ''y'')])
     \<noteq> Inr (PStr [])"
  by (simp add: scenario_loader_def get_content_def)

text \<open>
  Claim C4, amended. When the content key is a non-empty string, \<open>get_content\<close> on a
  dictionary raises nothing: it returns the value of the field of that name when the
  dictionary has one, and the empty string when it has none.
\<close>

theorem get_content_with_key:
  assumes "content_key self = Some key"
    and "key \<noteq> []"
    and "distinct (map fst kvs)"
  shows "(\<forall>v. (key, v) \<in> set kvs \<longrightarrow> get_content repr self (PDict kvs) = Inr v) \<and>
         (key \<notin> fst ` set kvs \<longrightarrow> get_content repr self (PDict kvs) = Inr (PStr []))"
proof -
  have g: "get_content repr self (PDict kvs)
             = Inr (case map_of kvs key of None \<Rightarrow> PStr [] | Some v \<Rightarrow> v)"
    using assms(1,2) by (simp add: get_content_truthy_key)
  show ?thesis
    using assms(3) by (auto simp: g map_of_absent)
qed

theorem get_content_with_key_witness:
  "content_key (scenario_loader ''records.json'' (Some ''body'') None) = Some ''body'' \<and>
   distinct (map fst [(''title'', PStr ''A''), (''body'', PStr ''hello'')]) \<and>
   (''body'', PStr ''hello'') \<in> set [(''title'', PStr ''A''), (''body'', PStr ''hello'')] \<and>
   get_content scenario_repr (scenario_loader ''records.json'' (Some ''body'') None)
       (PDict [(''title'', PStr ''A''), (''body'', PStr ''hello'')])
     = Inr (PStr ''hello'') \<and>
   ''body'' \<notin> fst ` set [(''title'', PStr ''A'')] \<and>
   get_content scenario_repr (scenario_loader ''records.json'' (Some ''body'') None)
       (PDict [(''title'', PStr ''A'')])
     = Inr (PStr [])"
proof -
  let ?self = "scenario_loader ''records.json'' (Some ''body'') None"
  have k: "content_key ?self = Some ''body''"
    by (simp add: scenario_loader_def)
  have n: "''body'' \<noteq> []" by simp
  have d1: "distinct (map fst [(''title'', PStr ''A''), (''body'', PStr ''hello'')])" by simp
  have d2: "distinct (map fst [(''title'', PStr ''A'')])" by simp
  from get_content_with_key [OF k n d1, of scenario_repr]
    get_content_with_key [OF k n d2, of scenario_repr] k
  show ?thesis by simp
qed

text \<open>
  Claim C5. When there is no content key, \<open>get_content\<close> on a dictionary returns the
  lines \<open>key: value\<close> of its fields, in their order, joined by newlines; for the record
  with title \<open>A\<close> and body \<open>hello\<close> that is the two lines \<open>title: A\<close> and
  \<open>body: hello\<close>.
\<close>

theorem get_content_without_key:
  assumes "content_key self = None"
  shows "get_content repr self (PDict kvs) = Inr (PStr (field_lines repr kvs)) \<and>
         get_content repr self (PDict [(''title'', PStr ''A''), (''body'', PStr ''hello'')])
           = Inr (PStr ''title: A\<newline>body: hello'')"
  using assms by (simp add: get_content_falsy_key)

theorem get_content_without_key_witness:
  "content_key (scenario_loader ''records.json'' None None) = None \<and>
   get_content scenario_repr (scenario_loader ''records.json'' None None)
       (PDict [(''n'', PInt (- 12)), (''ok'', PBool True), (''x'', PNone), (''t'', PStr ''a b'')])
     = Inr (PStr ''n: -12\<newline>ok: True\<newline>x: None\<newline>t: a b'')"
proof -
  let ?self = "scenario_loader ''records.json'' None None"
  have k: "content_key ?self = None"
    by (simp add: scenario_loader_def)
  have "field_lines scenario_repr
          [(''n'', PInt (- 12)), (''ok'', PBool True), (''x'', PNone), (''t'', PStr ''a b'')]
        = ''n: -12\<newline>ok: True\<newline>x: None\<newline>t: a b''"
    by (simp add: int_str_def nat_digits.simps digit_char_def)
  with get_content_without_key [OF k, of scenario_repr
      "[(''n'', PInt (- 12)), (''ok'', PBool True), (''x'', PNone), (''t'', PStr ''a b'')]"] k
  show ?thesis by simp
qed

text \<open>
  Claim C6. In the documents that \<open>create_documents\<close> returns, the metadata of every
  document is the empty dictionary when there is no \<open>metadata_func\<close>; when there is
  one, there are as many documents as items and the metadata of the \<open>i\<close>-th document
  is what \<open>metadata_func\<close> returned for the \<open>i\<close>-th item.
\<close>

theorem create_documents_metadata:
  assumes "create_documents repr self data = Inr docs"
  shows "(metadata_func self = None \<longrightarrow> (\<forall>doc\<in>set docs. metadata doc = PDict [])) \<and>
         (\<forall>f. metadata_func self = Some f \<longrightarrow>
            (\<exists>items. py_iter data = Inr items \<and> length docs = length items \<and>
               (\<forall>i<length docs. f (items ! i) = Inr (metadata (docs ! i)))))"
proof -
  from create_documents_result [OF assms] obtain items where
    i: "py_iter data = Inr items" and
    r: "list_all2 (document_for repr self) items docs" by blast
  have n: "\<forall>i<length docs. document_for repr self (items ! i) (docs ! i)"
    and l: "length docs = length items"
    using r by (simp_all add: list_all2_conv_all_nth)
  have "\<forall>doc\<in>set docs. metadata doc = PDict []" if "metadata_func self = None"
  proof
    fix doc assume "doc \<in> set docs"
    then obtain k where "k < length docs" "doc = docs ! k"
      by (auto simp: in_set_conv_nth)
    with n that show "metadata doc = PDict []"
      by (auto simp: document_for_def)
  qed
  moreover have "\<forall>i<length docs. f (items ! i) = Inr (metadata (docs ! i))"
    if "metadata_func self = Some f" for f
    using n that by (simp add: document_for_def)
  ultimately show ?thesis using i l by blast
qed

theorem create_documents_metadata_witness:
  "create_documents scenario_repr (scenario_loader ''records.json'' (Some ''body'') None)
       records_value
     = Inr [\<lparr>page_content = PStr ''hello'', metadata = PDict []\<rparr>,
            \<lparr>page_content = PStr ''world'', metadata = PDict []\<rparr>] \<and>
   create_documents scenario_repr
       (scenario_loader ''records.json'' (Some ''body'') (Some title_metadata)) records_value
     = Inr [\<lparr>page_content = PStr ''hello'', metadata = PDict [(''title'', PStr ''A'')]\<rparr>,
            \<lparr>page_content = PStr ''world'', metadata = PDict [(''title'', PStr ''B'')]\<rparr>] \<and>
   title_metadata (PDict [(''title'', PStr ''A''), (''body'', PStr ''hello'')])
     = Inr (PDict [(''title'', PStr ''A'')]) \<and>
   title_metadata (PDict [(''title'', PStr ''B''), (''body'', PStr ''world'')])
     = Inr (PDict [(''title'', PStr ''B'')])"
proof -
  let ?none = "scenario_loader ''records.json'' (Some ''body'') None"
  let ?some = "scenario_loader ''records.json'' (Some ''body'') (Some title_metadata)"
  let ?d1 = "[\<lparr>page_content = PStr ''hello'', metadata = PDict []\<rparr>,
              \<lparr>page_content = PStr ''world'', metadata = PDict []\<rparr>]"
  let ?d2 = "[\<lparr>page_content = PStr ''hello'', metadata = PDict [(''title'', PStr ''A'')]\<rparr>,
              \<lparr>page_content = PStr ''world'', metadata = PDict [(''title'', PStr ''B'')]\<rparr>]"
  have a: "create_documents scenario_repr ?none records_value = Inr ?d1"
    by (simp add: create_documents_def records_value_def get_content_def scenario_loader_def)
  have b: "create_documents scenario_repr ?some records_value = Inr ?d2"
    by (simp add: create_documents_def records_value_def get_content_def scenario_loader_def
        title_metadata_def)
  have mn: "metadata_func ?none = None" and ms: "metadata_func ?some = Some title_metadata"
    by (simp_all add: scenario_loader_def)
  from create_documents_metadata [OF a] mn have "\<forall>doc\<in>set ?d1. metadata doc = PDict []"
    by blast
  moreover from create_documents_metadata [OF b] ms obtain items where
    "py_iter records_value = Inr items"
    "\<forall>i<length ?d2. title_metadata (items ! i) = Inr (metadata (?d2 ! i))"
    by blast
  then have "title_metadata (PDict [(''title'', PStr ''A''), (''body'', PStr ''hello'')])
      = Inr (PDict [(''title'', PStr ''A'')])"
    "title_metadata (PDict [(''title'', PStr ''B''), (''body'', PStr ''world'')])
      = Inr (PDict [(''title'', PStr ''B'')])"
    by (auto simp: records_value_def)
  ultimately show ?thesis using a b by simp
qed

text \<open>
  Claim C7. Two calls of \<open>load\<close> on the same loader, in two worlds that hold the same
  file at its path, have the same outcome: equal lists of documents, or the same
  exception. By \<open>load_keeps_files\<close> the world after the first call is such a world.
\<close>

theorem load_deterministic:
  assumes "fs w' (file_path self) = fs w (file_path self)"
  shows "fst (load json_load repr self w') = fst (load json_load repr self w)"
  using assms
  by (simp add: load_def open_file_def split: file_entry.splits sum.splits exn.splits)

theorem load_deterministic_witness:
  "fs (snd (load scenario_json_load scenario_repr
              (scenario_loader ''broken.json'' None None) scenario_world))
       (file_path (scenario_loader ''broken.json'' None None))
     = fs scenario_world (file_path (scenario_loader ''broken.json'' None None)) \<and>
   stdout (snd (load scenario_json_load scenario_repr
                  (scenario_loader ''broken.json'' None None) scenario_world))
     \<noteq> stdout scenario_world \<and>
   fst (load scenario_json_load scenario_repr (scenario_loader ''broken.json'' None None)
          (snd (load scenario_json_load scenario_repr
                  (scenario_loader ''broken.json'' None None) scenario_world)))
     = fst (load scenario_json_load scenario_repr (scenario_loader ''broken.json'' None None)
              scenario_world)"
proof -
  let ?self = "scenario_loader ''broken.json'' None None"
  let ?w' = "snd (load scenario_json_load scenario_repr ?self scenario_world)"
  have f: "fs ?w' (file_path ?self) = fs scenario_world (file_path ?self)"
    by (simp add: load_keeps_files)
  have "fs scenario_world (file_path ?self) = Regular ''{invalid json''"
    by (simp add: scenario_loader_def scenario_world_def
        scenario_fs_def)
  then have "stdout ?w' \<noteq> stdout scenario_world"
    by (simp add: load_opened scenario_json_load_def records_text_def null_body_text_def print_def)
  with load_deterministic [OF f, of scenario_json_load scenario_repr] f show ?thesis
    by simp
qed

text \<open>
  Claim C8 as it is written fails when the exception raised while the documents are
  built is itself a \<open>JSONDecodeError\<close>, here raised by \<open>metadata_func\<close>: the \<open>try\<close>
  of line 70 holds the call of \<open>create_documents\<close>, so \<open>load\<close> prints the message and
  returns the empty list.
\<close>

theorem load_swallows_decode_error_counterexample:
  "create_documents scenario_repr
       (scenario_loader ''records.json'' None (Some decoding_metadata)) records_value
     = Inl JSONDecodeError \<and>
   scenario_json_load records_text = Inr records_value \<and>
   load scenario_json_load scenario_repr
       (scenario_loader ''records.json'' None (Some decoding_metadata)) scenario_world
     = (Inr [], scenario_world\<lparr>stdout := [''Error: Invalid JSON format'']\<rparr>)"
proof -
  let ?self = "scenario_loader ''records.json'' None (Some decoding_metadata)"
  have f: "fs scenario_world (file_path ?self) = Regular records_text"
    by (simp add: scenario_loader_def scenario_world_def
        scenario_fs_def)
  have j: "scenario_json_load records_text = Inr records_value"
    by (simp add: scenario_json_load_def)
  have c: "create_documents scenario_repr ?self records_value = Inl JSONDecodeError"
    by (simp add: create_documents_def records_value_def get_content_def scenario_loader_def
        decoding_metadata_def)
  have "stdout scenario_world = []" by (simp add: scenario_world_def)
  then show ?thesis using f j c by (simp add: load_opened print_def)
qed

text \<open>
  Claim C8, amended. When the file opens, \<open>json.load\<close> returns and
  \<open>create_documents\<close> raises, \<open>load\<close> raises the same exception and prints nothing,
  unless the exception is a \<open>JSONDecodeError\<close>, which is turned into the empty list
  and the printed message.
\<close>

theorem load_propagates_other_exceptions:
  assumes "fs w (file_path self) = Regular text"
    and "json_load text = Inr data"
    and "create_documents repr self data = Inl e"
  shows "(e \<noteq> JSONDecodeError \<longrightarrow> load json_load repr self w = (Inl e, w)) \<and>
         (e = JSONDecodeError \<longrightarrow>
            load json_load repr self w
              = (Inr [], w\<lparr>stdout := stdout w @ [''Error: Invalid JSON format'']\<rparr>))"
  using assms by (cases e) (simp_all add: load_opened print_def)

theorem load_propagates_other_exceptions_witness:
  "create_documents scenario_repr
       (scenario_loader ''records.json'' None (Some raising_metadata)) records_value
     = Inl (Raised ''KeyError'') \<and>
   load scenario_json_load scenario_repr
       (scenario_loader ''records.json'' None (Some raising_metadata)) scenario_world
     = (Inl (Raised ''KeyError''), scenario_world) \<and>
   create_documents scenario_repr (scenario_loader ''numbers.json'' None None) (PList [PInt 1])
     = Inl AttributeError \<and>
   load scenario_json_load scenario_repr (scenario_loader ''numbers.json'' None None)
       scenario_world
     = (Inl AttributeError, scenario_world)"
proof -
  let ?r = "scenario_loader ''records.json'' None (Some raising_metadata)"
  let ?n = "scenario_loader ''numbers.json'' None None"
  have fr: "fs scenario_world (file_path ?r) = Regular records_text"
    and fn: "fs scenario_world (file_path ?n) = Regular ''[1]''"
    by (simp_all add: scenario_loader_def scenario_world_def
        scenario_fs_def)
  have jr: "scenario_json_load records_text = Inr records_value"
    and jn: "scenario_json_load ''[1]'' = Inr (PList [PInt 1])"
    by (simp_all add: scenario_json_load_def records_text_def null_body_text_def)
  have cr: "create_documents scenario_repr ?r records_value = Inl (Raised ''KeyError'')"
    by (simp add: create_documents_def records_value_def get_content_def scenario_loader_def
        raising_metadata_def)
  have cn: "create_documents scenario_repr ?n (PList [PInt 1]) = Inl AttributeError"
    by (simp add: create_documents_def get_content_def scenario_loader_def)
  from load_propagates_other_exceptions
         [where json_load = scenario_json_load and repr = scenario_repr, OF fr jr cr]
       load_propagates_other_exceptions
         [where json_load = scenario_json_load and repr = scenario_repr, OF fn jn cn]
       cr cn
  show ?thesis by simp
qed

text \<open>
  Claim C9. With the content key \<open>""\<close> \<open>get_content\<close> returns, for every item, what
  it returns with no content key; on a dictionary that is the joined lines of all its
  fields, also when the dictionary has a field named \<open>""\<close>.
\<close>

theorem get_content_empty_key_as_unset:
  assumes "content_key self = Some []"
  shows "get_content repr self item = get_content repr (self\<lparr>content_key := None\<rparr>) item \<and>
         get_content repr self (PDict kvs) = Inr (PStr (field_lines repr kvs))"
  using assms by (simp add: get_content_falsy_key)

theorem get_content_empty_key_as_unset_witness:
  "content_key (scenario_loader ''records.json'' (Some []) None) = Some [] \<and>
   get_content scenario_repr (scenario_loader ''records.json'' (Some []) None)
       (PDict [([], PStr ''x''), (''a'', PStr ''y'')])
     = get_content scenario_repr (scenario_loader ''records.json'' None None)
         (PDict [([], PStr ''x''), (''a'', PStr ''y'')]) \<and>
   get_content scenario_repr (scenario_loader ''records.json'' (Some []) None)
       (PDict [([], PStr ''x''), (''a'', PStr ''y'')])
     = Inr (PStr '': x\<newline>a: y'')"
proof -
  let ?self = "scenario_loader ''records.json'' (Some []) None"
  have k: "content_key ?self = Some []"
    by (simp add: scenario_loader_def)
  have "?self\<lparr>content_key := None\<rparr> = scenario_loader ''records.json'' None None"
    by (simp add: scenario_loader_def)
  with get_content_empty_key_as_unset
         [OF k, of scenario_repr "PDict [([], PStr ''x''), (''a'', PStr ''y'')]"
            "[([], PStr ''x''), (''a'', PStr ''y'')]"] k
  show ?thesis by auto
qed




end
